theory Spec2Isabelle
  imports Main
begin

section \<open>Entity base: identity and the reader/writer lock\<close>

text \<open>
  \<^verbatim>\<open>bson.ObjectId\<close> is a Go string type (the session code compares an id with
  \<^verbatim>\<open>""\<close>), so an id is a string here.
\<close>

type_synonym ObjectId = string

text \<open>
  A call that cannot go on: \<open>Blocked\<close> when it waits for a lock that is held (nothing
  in a run of one call releases it), \<open>Fatal\<close> when an unlock meets a lock that is not
  held (the Go runtime aborts the program).
\<close>

datatype Failure = Blocked | Fatal

text \<open>The state of a \<^verbatim>\<open>sync.RWMutex\<close>: free, held by n readers, or held by a writer.\<close>

datatype RWMutex = Unlocked | ReadLocked nat | WriteLocked

text \<open>
  Modelled from the spec: \<^verbatim>\<open>DbObject\<close>, the struct every entity embeds, is declared
  outside the files under verification. The spec gives an entity an opaque identity and a
  reader/writer lock; those are its two fields here.
\<close>

record DbObject =
  Id :: ObjectId
  mutex :: RWMutex

text \<open>
  Modelled from the spec: the four lock operations of the entity base
  (\<^verbatim>\<open>ReadLock\<close>, \<^verbatim>\<open>ReadUnlock\<close>, \<^verbatim>\<open>WriteLock\<close>, \<^verbatim>\<open>WriteUnlock\<close>),
  a non-reentrant shared/exclusive lock that blocks until it is available.
\<close>

definition ReadLock :: "'a DbObject_scheme \<Rightarrow> Failure + 'a DbObject_scheme" where
  "ReadLock self =
     (case mutex self of
        Unlocked \<Rightarrow> Inr (self\<lparr>mutex := ReadLocked 1\<rparr>)
      | ReadLocked n \<Rightarrow> Inr (self\<lparr>mutex := ReadLocked (Suc n)\<rparr>)
      | WriteLocked \<Rightarrow> Inl Blocked)"

definition ReadUnlock :: "'a DbObject_scheme \<Rightarrow> Failure + 'a DbObject_scheme" where
  "ReadUnlock self =
     (case mutex self of
        ReadLocked n \<Rightarrow>
          (if n = 0 then Inl Fatal
           else if n = 1 then Inr (self\<lparr>mutex := Unlocked\<rparr>)
           else Inr (self\<lparr>mutex := ReadLocked (n - 1)\<rparr>))
      | _ \<Rightarrow> Inl Fatal)"

definition WriteLock :: "'a DbObject_scheme \<Rightarrow> Failure + 'a DbObject_scheme" where
  "WriteLock self =
     (case mutex self of
        Unlocked \<Rightarrow> Inr (self\<lparr>mutex := WriteLocked\<rparr>)
      | _ \<Rightarrow> Inl Blocked)"

definition WriteUnlock :: "'a DbObject_scheme \<Rightarrow> Failure + 'a DbObject_scheme" where
  "WriteUnlock self =
     (case mutex self of
        WriteLocked \<Rightarrow> Inr (self\<lparr>mutex := Unlocked\<rparr>)
      | _ \<Rightarrow> Inl Fatal)"

text \<open>
  Modelled from the spec: \<^verbatim>\<open>objectModified\<close>, the mark-modified step, is defined
  outside the files under verification. The spec has it serialise the entire entity and
  commit it to the backing store, synchronously; the store is the log of the snapshots
  committed so far, oldest first.
\<close>

definition objectModified :: "'e \<Rightarrow> 'e list \<Rightarrow> 'e list" where
  "objectModified obj db = db @ [obj]"

section \<open>Area\<close>

datatype ObjectType = AreaType

record Area = DbObject +
  Name :: string
  ZoneId :: ObjectId

definition GetType :: "Area \<Rightarrow> ObjectType" where
  "GetType self = AreaType"

text \<open>
  An accessor returns the value read and the entity as the call leaves it (the lock
  released again).
\<close>

definition GetName :: "Area \<Rightarrow> Failure + (string \<times> Area)" where
  "GetName self =
     (case ReadLock self of
        Inl f \<Rightarrow> Inl f
      | Inr locked \<Rightarrow>
          (let result = Name locked in
           case ReadUnlock locked of
             Inl f \<Rightarrow> Inl f
           | Inr released \<Rightarrow> Inr (result, released)))"

definition GetZoneId :: "Area \<Rightarrow> Failure + (ObjectId \<times> Area)" where
  "GetZoneId self =
     (case ReadLock self of
        Inl f \<Rightarrow> Inl f
      | Inr locked \<Rightarrow>
          (let result = ZoneId locked in
           case ReadUnlock locked of
             Inl f \<Rightarrow> Inl f
           | Inr released \<Rightarrow> Inr (result, released)))"

text \<open>
  The mutator takes the entity and the store and returns both as the call leaves them.
  The deferred \<^verbatim>\<open>WriteUnlock\<close> runs last, after the commit.
\<close>

definition SetName :: "string \<Rightarrow> Area \<Rightarrow> Area list \<Rightarrow> Failure + (Area \<times> Area list)" where
  "SetName name self db =
     (case WriteLock self of
        Inl f \<Rightarrow> Inl f
      | Inr locked \<Rightarrow>
          (let (body, db') =
                 (if name \<noteq> Name locked
                  then (let changed = locked\<lparr>Name := name\<rparr>
                        in (changed, objectModified changed db))
                  else (locked, db))
           in case WriteUnlock body of
                Inl f \<Rightarrow> Inl f
              | Inr released \<Rightarrow> Inr (released, db')))"

section \<open>Session: data\<close>

text \<open>
  A Go pointer is an address; the object it points to is looked up where the code
  dereferences it.
\<close>

type_synonym addr = nat

text \<open>The value a \<^verbatim>\<open>panic\<close> carries (never nil: \<^verbatim>\<open>recover\<close> returns nil when no panic is under way).\<close>

type_synonym PanicValue = string

text \<open>A call into a collaborator either returns or panics.\<close>

datatype 'a Call = Returns 'a | Panics PanicValue

datatype ColorMode = ColorModeNone | ColorModeLight | ColorModeDark

datatype Color =
    ColorRed | ColorDarkRed | ColorGreen | ColorDarkGreen | ColorBlue | ColorDarkBlue
  | ColorYellow | ColorDarkYellow | ColorMagenta | ColorDarkMagenta | ColorCyan
  | ColorDarkCyan | ColorBlack | ColorWhite | ColorGray

text \<open>
  \<^verbatim>\<open>userInputMode\<close> is a Go int with two named values (\<^verbatim>\<open>iota\<close> counts from 0).
\<close>

type_synonym userInputMode = int

definition CleanUserInput :: userInputMode where
  "CleanUserInput = 0"

definition RawUserInput :: userInputMode where
  "RawUserInput = 1"

text \<open>
  Modelled from the spec: the event types of package \<^verbatim>\<open>model\<close> are declared outside the
  files under verification. An event is an immutable value with a type tag; the session
  code names one type, \<^verbatim>\<open>RoomUpdateEvent\<close>, which carries a room pointer. Every other
  event is \<open>OtherEvent k\<close>, k telling the events apart.
\<close>

datatype EventType = RoomUpdateEventType | OtherEventType nat

datatype Event = RoomUpdateEvent addr | OtherEvent nat

fun Type :: "Event \<Rightarrow> EventType" where
  "Type (RoomUpdateEvent r) = RoomUpdateEventType"
| "Type (OtherEvent k) = OtherEventType k"

text \<open>
  What the session does with its connection, in order: the calls
  \<^verbatim>\<open>utils.ClearLine\<close>, \<^verbatim>\<open>utils.WriteLine\<close> and \<^verbatim>\<open>io.WriteString\<close>.
\<close>

datatype Output = ClearLine | WriteLine string | WriteString string

record Session =
  conn :: "Output list"
  user :: addr
  player :: addr
  room :: addr
  zone :: addr


text \<open>
  What happens around a waiting session: the reader's read on the connection
  completes (with whatever the connection holds, \<open>'c\<close>), or an event is received from
  the session's mailbox.
\<close>

datatype 'c Happening = Conn 'c | Mail Event

text \<open>
  How a piece of the dispatcher ends: it returns a value, it panics, or it is still
  waiting in the \<^verbatim>\<open>select\<close> when nothing more happens.
\<close>

datatype 'a Outcome = Returned 'a | Panicked PanicValue | Waiting

text \<open>
  What the session is run on. The functions of packages \<^verbatim>\<open>utils\<close>, \<^verbatim>\<open>model\<close> and
  \<^verbatim>\<open>database\<close>, and \<^verbatim>\<open>handleAction\<close> of the session package's other files, are
  defined outside the files under verification and are parameters of the session.
  \<^verbatim>\<open>processCommand\<close> is a closure of \<^verbatim>\<open>Exec\<close> itself: the main loop takes what a
  command does as a parameter too, a command being free to read further input through
  \<^verbatim>\<open>getUserInput\<close> and \<^verbatim>\<open>execMenu\<close>; the branches of it that are examined are
  embedded on their own further down. \<open>'w\<close> is the state of the world the commands
  act on.
\<close>

record ('c, 'w) Deps =
  ToString :: "Event \<Rightarrow> addr \<Rightarrow> string"
  RoomGetId :: "addr \<Rightarrow> ObjectId"
  GetColorMode :: "addr \<Rightarrow> ColorMode"
  PrettyName :: "addr \<Rightarrow> string"
  Colorize :: "ColorMode \<Rightarrow> Color \<Rightarrow> string \<Rightarrow> string"
  Sprintf :: "string \<Rightarrow> string"
  RoomToString :: "Session \<Rightarrow> 'w \<Rightarrow> string"
  GetUserInput :: "string \<Rightarrow> 'c \<Rightarrow> string Call"
  GetRawUserInput :: "string \<Rightarrow> 'c \<Rightarrow> string Call"
  Argify :: "string \<Rightarrow> string \<times> string list"
  processCommand ::
    "string \<times> string list \<Rightarrow> 'c Happening list \<Rightarrow> Session \<Rightarrow> 'w
       \<Rightarrow> unit Outcome \<times> 'c Happening list \<times> Session \<times> 'w"
  handleAction ::
    "string \<times> string list \<Rightarrow> 'c Happening list \<Rightarrow> Session \<Rightarrow> 'w
       \<Rightarrow> unit Outcome \<times> 'c Happening list \<times> Session \<times> 'w"

section \<open>Session: printing\<close>

definition printString :: "string \<Rightarrow> Session \<Rightarrow> Session" where
  "printString data session = session\<lparr>conn := conn session @ [WriteString data]\<rparr>"

definition printLineColor :: "('c, 'w, 'x) Deps_scheme \<Rightarrow> Color \<Rightarrow> string \<Rightarrow> Session \<Rightarrow> Session" where
  "printLineColor D color line session =
     session\<lparr>conn := conn session
        @ [WriteLine (Colorize D (GetColorMode D (user session)) color (Sprintf D line))]\<rparr>"

definition printLine :: "('c, 'w, 'x) Deps_scheme \<Rightarrow> string \<Rightarrow> Session \<Rightarrow> Session" where
  "printLine D line session = printLineColor D ColorWhite line session"

definition printError :: "('c, 'w, 'x) Deps_scheme \<Rightarrow> string \<Rightarrow> Session \<Rightarrow> Session" where
  "printError D err session = printLineColor D ColorRed err session"

definition clearLine :: "Session \<Rightarrow> Session" where
  "clearLine session = session\<lparr>conn := conn session @ [ClearLine]\<rparr>"

definition prompt :: string where
  "prompt = ''> ''"

section \<open>Session: the dispatcher and the reader\<close>

text \<open>\<^verbatim>\<open>processEvent\<close>: the message to show, and the session with its room refreshed.\<close>

definition processEvent :: "('c, 'w, 'x) Deps_scheme \<Rightarrow> Event \<Rightarrow> Session \<Rightarrow> string \<times> Session" where
  "processEvent D event session =
     (let message = ToString D event (player session) in
      case Type event of
        RoomUpdateEventType \<Rightarrow>
          (case event of
             RoomUpdateEvent r \<Rightarrow>
               (if RoomGetId D r = RoomGetId D (room session)
                then (message, session\<lparr>room := r\<rparr>)
                else (message, session))
           | OtherEvent k \<Rightarrow> (message, session))
      | OtherEventType k \<Rightarrow> (message, session))"

text \<open>
  The body of the reader's loop between receiving the mode and the prompt and sending
  the input: the prompt is coloured, and the read is made according to the mode.
\<close>

definition readerBody :: "('c, 'w, 'x) Deps_scheme \<Rightarrow> Session \<Rightarrow> userInputMode \<Rightarrow> string \<Rightarrow> 'c \<Rightarrow> string Call" where
  "readerBody D session mode p c =
     (let coloured = Colorize D (GetColorMode D (user session)) ColorWhite p in
      if mode = CleanUserInput then GetUserInput D coloured c
      else if mode = RawUserInput then GetRawUserInput D coloured c
      else Panics ''Unhandled case in switch statement (userInputMode)'')"

text \<open>What the dispatcher's \<^verbatim>\<open>select\<close> can receive, by channel.\<close>

datatype Ready = FromUserInputChannel string | FromEventChannel Event | FromPanicChannel PanicValue

text \<open>
  The reader's deferred function: \<^verbatim>\<open>recover\<close> gives the panic under way, if any, and
  it is sent on the panic channel.
\<close>

definition readerDeferred :: "PanicValue option \<Rightarrow> Ready option" where
  "readerDeferred r = (case r of Some v \<Rightarrow> Some (FromPanicChannel v) | None \<Rightarrow> None)"

text \<open>
  One round of the reader: the body returns and the input is sent on the user input
  channel, or it panics and the goroutine unwinds through the deferred function.
\<close>

definition readerRound :: "('c, 'w, 'x) Deps_scheme \<Rightarrow> Session \<Rightarrow> userInputMode \<Rightarrow> string \<Rightarrow> 'c \<Rightarrow> Ready option" where
  "readerRound D session mode p c =
     (case readerBody D session mode p c of
        Returns input \<Rightarrow> Some (FromUserInputChannel input)
      | Panics v \<Rightarrow> readerDeferred (Some v))"

text \<open>
  One pass through the dispatcher's \<^verbatim>\<open>select\<close>: an input ends the call with that
  input, a forwarded panic is raised again, an event is processed and, when its message
  is not empty, shown under a cleared line with the prompt after it; then the loop goes
  on (\<open>None\<close>).
\<close>

definition selectCase ::
  "('c, 'w, 'x) Deps_scheme \<Rightarrow> string \<Rightarrow> Ready \<Rightarrow> Session \<Rightarrow> string Call option \<times> Session" where
  "selectCase D p ready session =
     (case ready of
        FromUserInputChannel input \<Rightarrow> (Some (Returns input), session)
      | FromEventChannel event \<Rightarrow>
          (let (message, session') = processEvent D event session in
           if message \<noteq> []
           then (None, printString p (printLine D message (clearLine session')))
           else (None, session'))
      | FromPanicChannel quitMessage \<Rightarrow> (Some (Panics quitMessage), session))"

text \<open>
  \<^verbatim>\<open>getUserInput\<close>: mode and prompt go to the reader, then the \<^verbatim>\<open>select\<close> loop
  runs over what happens: the reader's round puts a value on one of its two channels,
  the mailbox delivers an event. The result is how the call ends, what has not happened
  yet, and the session as the call leaves it. When nothing more happens the call is
  still waiting.
\<close>

fun getUserInput ::
  "('c, 'w, 'x) Deps_scheme \<Rightarrow> userInputMode \<Rightarrow> string \<Rightarrow> 'c Happening list \<Rightarrow> Session
     \<Rightarrow> string Outcome \<times> 'c Happening list \<times> Session" where
  "getUserInput D inputMode p [] session = (Waiting, [], session)"
| "getUserInput D inputMode p (h # rest) session =
     (case (case h of Conn c \<Rightarrow> readerRound D session inputMode p c
                    | Mail event \<Rightarrow> Some (FromEventChannel event)) of
        None \<Rightarrow> getUserInput D inputMode p rest session
      | Some ready \<Rightarrow>
          (case selectCase D p ready session of
             (Some (Returns input), session') \<Rightarrow> (Returned input, rest, session')
           | (Some (Panics quitMessage), session') \<Rightarrow> (Panicked quitMessage, rest, session')
           | (None, session') \<Rightarrow> getUserInput D inputMode p rest session'))"







definition printRoom :: "('c, 'w, 'x) Deps_scheme \<Rightarrow> 'w \<Rightarrow> Session \<Rightarrow> Session" where
  "printRoom D world session = printLine D (RoomToString D session world) session"

text \<open>
  The main loop of \<^verbatim>\<open>Exec\<close>. A command or an action reads further input through
  \<^verbatim>\<open>getUserInput\<close> and may never come back, so the loop runs on fuel, one unit for
  each round; \<open>None\<close> is a loop that has used up its fuel.
\<close>

fun mainLoop ::
  "('c, 'w, 'x) Deps_scheme \<Rightarrow> nat \<Rightarrow> 'c Happening list \<Rightarrow> Session \<Rightarrow> 'w
     \<Rightarrow> (unit Outcome \<times> 'c Happening list \<times> Session \<times> 'w) option" where
  "mainLoop D 0 tr session world = None"
| "mainLoop D (Suc fuel) tr session world =
     (case getUserInput D RawUserInput prompt tr session of
        (Returned input, rest, session') \<Rightarrow>
          (if input = [] \<or> input = ''logout''
           then Some (Returned (), rest, session', world)
           else
             (case (if take 1 input = ''/''
                    then processCommand D (Argify D (drop 1 input)) rest session' world
                    else handleAction D (Argify D input) rest session' world) of
                (Returned u, rest', session'', world') \<Rightarrow> mainLoop D fuel rest' session'' world'
              | (Panicked q, after) \<Rightarrow> Some (Panicked q, after)
              | (Waiting, after) \<Rightarrow> Some (Waiting, after)))
      | (Panicked q, rest, session') \<Rightarrow> Some (Panicked q, rest, session', world)
      | (Waiting, rest, session') \<Rightarrow> Some (Waiting, rest, session', world))"


text \<open>
  Modelled from the spec: \<^verbatim>\<open>utils.GetRawUserInput\<close> is defined outside the files under
  verification; its test \<^verbatim>\<open>Test_GetRawUserInput\<close> is among them. It returns the line
  read as it is, except that a line that is exactly x or X gives the empty string.
\<close>

definition utils_GetRawUserInput :: "string \<Rightarrow> string \<Rightarrow> string" where
  "utils_GetRawUserInput p line = (if line = ''x'' \<or> line = ''X'' then [] else line)"

text \<open>
  What a waiting session is to show for one event: nothing for an empty
  message, otherwise the line is cleared, the message is printed as a line, and the
  prompt is written again.
\<close>

definition eventShown :: "('c, 'w, 'x) Deps_scheme \<Rightarrow> string \<Rightarrow> Session \<Rightarrow> Event \<Rightarrow> Output list" where
  "eventShown D p session event =
     (let message = ToString D event (player session) in
      if message = [] then []
      else [ClearLine,
            WriteLine (Colorize D (GetColorMode D (user session)) ColorWhite (Sprintf D message)),
            WriteString p])"

text \<open>
  What an event is to do to the cached room: a room update whose
  room has the id of the cached room replaces it, any other event leaves it.
\<close>

fun refreshed :: "('c, 'w, 'x) Deps_scheme \<Rightarrow> Event \<Rightarrow> addr \<Rightarrow> addr" where
  "refreshed D (RoomUpdateEvent r) cur = (if RoomGetId D r = RoomGetId D cur then r else cur)"
| "refreshed D (OtherEvent k) cur = cur"

text \<open>
  Collaborators to run the session on: the connection holds a line or fails, the
  clean read lowers nothing and passes the line on, commands and actions return at once.
\<close>

definition exampleDeps :: "(string Call, unit) Deps" where
  "exampleDeps =
     \<lparr>ToString = (\<lambda>event p. case event of RoomUpdateEvent r \<Rightarrow> [] | OtherEvent k \<Rightarrow> ''Bob says hello''),
      RoomGetId = (\<lambda>a. if a = 3 \<or> a = 4 then ''r1'' else ''r2''),
      GetColorMode = (\<lambda>u. ColorModeNone),
      PrettyName = (\<lambda>p. ''Alice''),
      Colorize = (\<lambda>m c s. s),
      Sprintf = (\<lambda>s. s),
      RoomToString = (\<lambda>s w. ''A room''),
      GetUserInput = (\<lambda>p c. c),
      GetRawUserInput =
        (\<lambda>p c. case c of Returns line \<Rightarrow> Returns (utils_GetRawUserInput p line) | Panics e \<Rightarrow> Panics e),
      Argify = (\<lambda>s. (s, [])),
      processCommand = (\<lambda>ca tr s w. (Returned (), tr, s, w)),
      handleAction = (\<lambda>ca tr s w. (Returned (), tr, s, w))\<rparr>"

definition exampleSession :: Session where
  "exampleSession = \<lparr>conn = [], user = 1, player = 2, room = 3, zone = 5\<rparr>"




declare getUserInput.simps [simp del]

declare mainLoop.simps [simp del]

section \<open>Session: the reader's throttle\<close>

text \<open>
  Time is counted in nanoseconds, as \<^verbatim>\<open>time.Duration\<close> does;
  \<^verbatim>\<open>time.Duration(200) * time.Millisecond\<close> is the delay.
\<close>

definition delay :: int where
  "delay = 200 * 1000000"

text \<open>
  How long the steps of one round of the reader's loop take, none of which the code
  controls: receiving mode and prompt and reading the input, the time \<^verbatim>\<open>time.Sleep\<close>
  sleeps beyond what it was asked (it pauses for at least the duration given), the send
  on the user input channel until the dispatcher receives, and the step from there to
  \<^verbatim>\<open>time.Now()\<close>.
\<close>

record Round =
  readTook :: nat
  overslept :: nat
  sendTook :: nat
  stampTook :: nat

text \<open>What the reader asks \<^verbatim>\<open>time.Sleep\<close> for, if it sleeps, given the time since the last stamp.\<close>

definition throttleSleep :: "int \<Rightarrow> int option" where
  "throttleSleep diff = (if diff < delay then Some (delay - diff) else None)"

text \<open>
  One round of the reader's loop on the clock: from the value of \<^verbatim>\<open>lastTime\<close>, the time
  at which the round delivers its input to the dispatcher (the send on the unbuffered
  channel completes).
\<close>

definition deliveredAt :: "int \<Rightarrow> Round \<Rightarrow> int" where
  "deliveredAt lastTime r =
     (let readAt = lastTime + int (readTook r);
          diff = readAt - lastTime;
          wokeAt = (case throttleSleep diff of
                      Some d \<Rightarrow> readAt + d + int (overslept r)
                    | None \<Rightarrow> readAt)
      in wokeAt + int (sendTook r))"

text \<open>
  The reader's loop: the delivery times of its rounds, each round starting from the
  \<^verbatim>\<open>lastTime\<close> stamped when the round before it ended.
\<close>

fun readerDeliveries :: "int \<Rightarrow> Round list \<Rightarrow> int list" where
  "readerDeliveries lastTime [] = []"
| "readerDeliveries lastTime (r # rounds) =
     (let sentAt = deliveredAt lastTime r;
          stampedAt = sentAt + int (stampTook r)
      in sentAt # readerDeliveries stampedAt rounds)"

text \<open>A round in which nothing takes any time: inputs submitted back to back.\<close>

definition atOnce :: Round where
  "atOnce = \<lparr>readTook = 0, overslept = 0, sendTook = 0, stampTook = 0\<rparr>"

section \<open>Commands: zones\<close>

text \<open>
  The functions of packages \<^verbatim>\<open>model\<close> and \<^verbatim>\<open>database\<close> that the zone command
  calls, defined outside the files under verification; they are parameters of the
  command. A zone or room pointer is an address, nil is \<open>None\<close>.
\<close>

record 'w ModelOps =
  GetZones :: "'w \<Rightarrow> addr list"
  GetZoneByName :: "string \<Rightarrow> 'w \<Rightarrow> addr option"
  ZoneGetId :: "addr \<Rightarrow> 'w \<Rightarrow> ObjectId"
  ZoneGetName :: "addr \<Rightarrow> 'w \<Rightarrow> string"
  ZoneSetName :: "string \<Rightarrow> addr \<Rightarrow> 'w \<Rightarrow> 'w"
  CreateZone :: "string \<Rightarrow> 'w \<Rightarrow> addr \<times> 'w"
  CreateRoom :: "addr \<Rightarrow> 'w \<Rightarrow> addr \<times> 'w"
  MoveRoomsToZone :: "ObjectId \<Rightarrow> ObjectId \<Rightarrow> 'w \<Rightarrow> 'w"
  MoveCharacterToRoom :: "addr \<Rightarrow> addr \<Rightarrow> 'w \<Rightarrow> 'w"

text \<open>
  The branch \<^verbatim>\<open>case "zone"\<close> of \<^verbatim>\<open>processCommand\<close>: the session and the world as
  the command leaves them.
\<close>

definition zoneCommand ::
  "('c, 'w, 'x) Deps_scheme \<Rightarrow> 'w ModelOps \<Rightarrow> string list \<Rightarrow> Session \<Rightarrow> 'w \<Rightarrow> Session \<times> 'w" where
  "zoneCommand D M args session world =
     (if length args = 0 then
        (if ZoneGetId M (zone session) world = []
         then (printLine D ''Currently in the null zone'' session, world)
         else (printLine D (''Current zone: ''
                  @ Colorize D (GetColorMode D (user session)) ColorBlue
                      (ZoneGetName M (zone session) world)) session, world))
      else if length args = 1 then
        (if args ! 0 = ''list''
         then (fold (\<lambda>z s. printLine D (ZoneGetName M z world) s) (GetZones M world)
                 (printLineColor D ColorBlue ''-----'' (printLineColor D ColorBlue ''Zones'' session)),
               world)
         else (printError D ''Usage: /zone [list|rename <name>|new <name>]'' session, world))
      else if length args = 2 then
        (if args ! 0 = ''rename'' then
           (case GetZoneByName M (args ! 0) world of
              Some z \<Rightarrow> (printError D ''A zone with that name already exists'' session, world)
            | None \<Rightarrow>
                (if ZoneGetId M (zone session) world = []
                 then (let (created, world1) = CreateZone M (args ! 1) world;
                           world2 = MoveRoomsToZone M [] (ZoneGetId M created world1) world1
                       in (session\<lparr>zone := created\<rparr>, world2))
                 else (session, ZoneSetName M (args ! 1) (zone session) world)))
         else if args ! 0 = ''new'' then
           (case GetZoneByName M (args ! 0) world of
              Some z \<Rightarrow> (printError D ''A zone with that name already exists'' session, world)
            | None \<Rightarrow>
                (let (newZone, world1) = CreateZone M (args ! 1) world;
                     (newRoom, world2) = CreateRoom M newZone world1;
                     world3 = MoveCharacterToRoom M (player session) newRoom world2;
                     moved = session\<lparr>zone := newZone, room := newRoom\<rparr>
                 in (printRoom D world3 moved, world3)))
         else (session, world))
      else (session, world))"

text \<open>
  Modelled from the spec: the world of package \<^verbatim>\<open>model\<close> is defined outside the files
  under verification; the spec has zones, rooms and characters as entities with an id,
  a room referring to its zone and a character to its room. Here the world is three
  tables: the zones with id and name, the rooms with the id of their zone, and the room
  each character is in; the operations do on them what their names say.
\<close>

record TableWorld =
  zoneTable :: "(addr \<times> ObjectId \<times> string) list"
  roomTable :: "(addr \<times> ObjectId) list"
  whereabouts :: "(addr \<times> addr) list"

definition tableModel :: "TableWorld ModelOps" where
  "tableModel =
     \<lparr>GetZones = (\<lambda>w. map fst (zoneTable w)),
      GetZoneByName = (\<lambda>name w.
        case filter (\<lambda>(z, i, n). n = name) (zoneTable w) of
          [] \<Rightarrow> None | (z, i, n) # others \<Rightarrow> Some z),
      ZoneGetId = (\<lambda>z w.
        case filter (\<lambda>(z', i, n). z' = z) (zoneTable w) of
          [] \<Rightarrow> [] | (z', i, n) # others \<Rightarrow> i),
      ZoneGetName = (\<lambda>z w.
        case filter (\<lambda>(z', i, n). z' = z) (zoneTable w) of
          [] \<Rightarrow> [] | (z', i, n) # others \<Rightarrow> n),
      ZoneSetName = (\<lambda>name z w.
        w\<lparr>zoneTable := map (\<lambda>(z', i, n). if z' = z then (z', i, name) else (z', i, n)) (zoneTable w)\<rparr>),
      CreateZone = (\<lambda>name w.
        let z = Suc (fold max (map fst (zoneTable w)) 0)
        in (z, w\<lparr>zoneTable := zoneTable w @ [(z, ''zone-'' @ name, name)]\<rparr>)),
      CreateRoom = (\<lambda>z w.
        let r = Suc (fold max (map fst (roomTable w)) 0);
            zid = (case filter (\<lambda>(z', i, n). z' = z) (zoneTable w) of
                     [] \<Rightarrow> [] | (z', i, n) # others \<Rightarrow> i)
        in (r, w\<lparr>roomTable := roomTable w @ [(r, zid)]\<rparr>)),
      MoveRoomsToZone = (\<lambda>fromId toId w.
        w\<lparr>roomTable := map (\<lambda>(r, zid). if zid = fromId then (r, toId) else (r, zid)) (roomTable w)\<rparr>),
      MoveCharacterToRoom = (\<lambda>c r w.
        w\<lparr>whereabouts := (c, r) # filter (\<lambda>(c', r'). c' \<noteq> c) (whereabouts w)\<rparr>)\<rparr>"

text \<open>The example collaborators, for a session in a world of tables.\<close>

definition tableDeps :: "(string Call, TableWorld) Deps" where
  "tableDeps =
     \<lparr>ToString = (\<lambda>event p. case event of RoomUpdateEvent r \<Rightarrow> [] | OtherEvent k \<Rightarrow> ''Bob says hello''),
      RoomGetId = (\<lambda>a. if a = 3 \<or> a = 4 then ''r1'' else ''r2''),
      GetColorMode = (\<lambda>u. ColorModeNone),
      PrettyName = (\<lambda>p. ''Alice''),
      Colorize = (\<lambda>m c s. s),
      Sprintf = (\<lambda>s. s),
      RoomToString = (\<lambda>s w. ''A room''),
      GetUserInput = (\<lambda>p c. c),
      GetRawUserInput =
        (\<lambda>p c. case c of Returns line \<Rightarrow> Returns (utils_GetRawUserInput p line) | Panics e \<Rightarrow> Panics e),
      Argify = (\<lambda>s. (s, [])),
      processCommand = (\<lambda>ca tr s w. (Returned (), tr, s, w)),
      handleAction = (\<lambda>ca tr s w. (Returned (), tr, s, w))\<rparr>"

text \<open>A world with one zone, named foo, holding the room the player of the example session is in.\<close>

definition fooWorld :: TableWorld where
  "fooWorld = \<lparr>zoneTable = [(5, ''z1'', ''foo'')], roomTable = [(3, ''z1'')], whereabouts = [(2, 3)]\<rparr>"

text \<open>A world with two zones, named foo and new; the player of the example session is in foo.\<close>

definition newWorld :: TableWorld where
  "newWorld = \<lparr>zoneTable = [(5, ''z1'', ''foo''), (6, ''z2'', ''new'')],
                roomTable = [(3, ''z1'')], whereabouts = [(2, 3)]\<rparr>"

section \<open>Commands: toggling an exit\<close>

datatype ExitDirection =
    DirectionNone | DirectionNorth | DirectionNorthEast | DirectionEast | DirectionSouthEast
  | DirectionSouth | DirectionSouthWest | DirectionWest | DirectionNorthWest
  | DirectionUp | DirectionDown

text \<open>
  Modelled from the spec: \<^verbatim>\<open>database.StringToDirection\<close> is defined outside the files
  under verification. The exit menu of the session code gives each direction its key;
  a string that is no key gives \<^verbatim>\<open>DirectionNone\<close>.
\<close>

definition StringToDirection :: "string \<Rightarrow> ExitDirection" where
  "StringToDirection str =
     (if str = ''n'' then DirectionNorth
      else if str = ''ne'' then DirectionNorthEast
      else if str = ''e'' then DirectionEast
      else if str = ''se'' then DirectionSouthEast
      else if str = ''s'' then DirectionSouth
      else if str = ''sw'' then DirectionSouthWest
      else if str = ''w'' then DirectionWest
      else if str = ''nw'' then DirectionNorthWest
      else if str = ''u'' then DirectionUp
      else if str = ''d'' then DirectionDown
      else DirectionNone)"

text \<open>
  Modelled from the spec: \<^verbatim>\<open>ExitDirection.Opposite\<close> is defined outside the files under
  verification. The quick room commands of the session code (\<^verbatim>\<open>/n\<close> to \<^verbatim>\<open>/sw\<close>) open
  an exit, move, and open the exit back: those are the pairs here.
\<close>

fun Opposite :: "ExitDirection \<Rightarrow> ExitDirection" where
  "Opposite DirectionNorth = DirectionSouth"
| "Opposite DirectionSouth = DirectionNorth"
| "Opposite DirectionEast = DirectionWest"
| "Opposite DirectionWest = DirectionEast"
| "Opposite DirectionUp = DirectionDown"
| "Opposite DirectionDown = DirectionUp"
| "Opposite DirectionNorthEast = DirectionSouthWest"
| "Opposite DirectionSouthWest = DirectionNorthEast"
| "Opposite DirectionNorthWest = DirectionSouthEast"
| "Opposite DirectionSouthEast = DirectionNorthWest"
| "Opposite DirectionNone = DirectionNone"

record Coordinate =
  X :: int
  Y :: int
  Z :: int

text \<open>
  Modelled from the spec: \<^verbatim>\<open>database.Room\<close> is defined outside the files under
  verification. The spec has a room refer to its zone and to its neighbours by
  directional exits; the session code reads its location. A room is an entity with the
  id of its zone, its location and the set of its enabled exits.
\<close>

record Room = DbObject +
  RoomZoneId :: ObjectId
  Location :: Coordinate
  Exits :: "ExitDirection set"

text \<open>
  Modelled from the spec: the accessors and the mutator of a room that the exit editor
  calls. An accessor holds the read lock while it copies the value it returns; the
  mutator takes the write lock, compares the old value with the new one and, only if
  the value changes, commits the entity while it still holds the lock.
\<close>

definition HasExit :: "ExitDirection \<Rightarrow> Room \<Rightarrow> Failure + (bool \<times> Room)" where
  "HasExit dir self =
     (case ReadLock self of
        Inl f \<Rightarrow> Inl f
      | Inr locked \<Rightarrow>
          (let result = (dir \<in> Exits locked) in
           case ReadUnlock locked of
             Inl f \<Rightarrow> Inl f
           | Inr released \<Rightarrow> Inr (result, released)))"

definition NextLocation ::
  "(Coordinate \<Rightarrow> ExitDirection \<Rightarrow> Coordinate) \<Rightarrow> ExitDirection \<Rightarrow> Room \<Rightarrow> Failure + (Coordinate \<times> Room)" where
  "NextLocation towards dir self =
     (case ReadLock self of
        Inl f \<Rightarrow> Inl f
      | Inr locked \<Rightarrow>
          (let result = towards (Location locked) dir in
           case ReadUnlock locked of
             Inl f \<Rightarrow> Inl f
           | Inr released \<Rightarrow> Inr (result, released)))"

definition SetExitEnabled ::
  "ExitDirection \<Rightarrow> bool \<Rightarrow> Room \<Rightarrow> Room list \<Rightarrow> Failure + (Room \<times> Room list)" where
  "SetExitEnabled dir enabled self db =
     (case WriteLock self of
        Inl f \<Rightarrow> Inl f
      | Inr locked \<Rightarrow>
          (let (body, db') =
                 (if enabled \<noteq> (dir \<in> Exits locked)
                  then (let changed =
                              locked\<lparr>Exits := (if enabled then insert dir (Exits locked)
                                                else Exits locked - {dir})\<rparr>
                        in (changed, objectModified changed db))
                  else (locked, db))
           in case WriteUnlock body of
                Inl f \<Rightarrow> Inl f
              | Inr released \<Rightarrow> Inr (released, db')))"

text \<open>
  The rooms of the world: the room each pointer leads to, the pointers the model
  holds, the commits made so far, and the id of the zone each zone pointer leads to.
\<close>

record RoomWorld =
  roomHeap :: "addr \<Rightarrow> Room"
  allRooms :: "addr list"
  roomDb :: "Room list"
  zoneIdOf :: "addr \<Rightarrow> ObjectId"

text \<open>
  Modelled from the spec: \<^verbatim>\<open>model.M.GetRoomByLocation\<close> is defined outside the files
  under verification: the room of the given zone at the given location, nil if there
  is none.
\<close>

definition GetRoomByLocation :: "Coordinate \<Rightarrow> addr \<Rightarrow> RoomWorld \<Rightarrow> addr option" where
  "GetRoomByLocation loc z world =
     find (\<lambda>a. Location (roomHeap world a) = loc \<and> RoomZoneId (roomHeap world a) = zoneIdOf world z)
       (allRooms world)"

text \<open>
  The exit editor's handling of a choice made in the exit menu (the body of its loop
  after the menu): the exit of the session's room is toggled, and the exit back from the
  room next door, if there is one, is set the same way. \<open>towards\<close> is the arithmetic of
  \<^verbatim>\<open>NextLocation\<close> on coordinates, defined outside the files under verification.
\<close>

definition toggleExit ::
  "(Coordinate \<Rightarrow> ExitDirection \<Rightarrow> Coordinate) \<Rightarrow> string \<Rightarrow> Session \<Rightarrow> RoomWorld
     \<Rightarrow> Failure + RoomWorld" where
  "toggleExit towards choice session world =
     (let direction = StringToDirection choice in
      if direction \<noteq> DirectionNone then
        (case HasExit direction (roomHeap world (room session)) of
           Inl f \<Rightarrow> Inl f
         | Inr (has, r1) \<Rightarrow>
             (let enable = \<not> has;
                  world1 = world\<lparr>roomHeap := (roomHeap world)(room session := r1)\<rparr>
              in case SetExitEnabled direction enable (roomHeap world1 (room session)) (roomDb world1) of
                   Inl f \<Rightarrow> Inl f
                 | Inr (r2, db2) \<Rightarrow>
                     (let world2 = world1\<lparr>roomHeap := (roomHeap world1)(room session := r2),
                                          roomDb := db2\<rparr>
                      in case NextLocation towards direction (roomHeap world2 (room session)) of
                           Inl f \<Rightarrow> Inl f
                         | Inr (loc, r3) \<Rightarrow>
                             (let world3 = world2\<lparr>roomHeap := (roomHeap world2)(room session := r3)\<rparr>
                              in case GetRoomByLocation loc (zone session) world3 of
                                   None \<Rightarrow> Inr world3
                                 | Some otherRoom \<Rightarrow>
                                     (case SetExitEnabled (Opposite direction) enable
                                             (roomHeap world3 otherRoom) (roomDb world3) of
                                        Inl f \<Rightarrow> Inl f
                                      | Inr (r4, db4) \<Rightarrow>
                                          Inr (world3\<lparr>roomHeap := (roomHeap world3)(otherRoom := r4),
                                                      roomDb := db4\<rparr>))))))
      else Inr world)"

text \<open>A room with an exit set as asked, and its snapshot as committed under the write lock.\<close>

definition withExit :: "ExitDirection \<Rightarrow> bool \<Rightarrow> Room \<Rightarrow> Room" where
  "withExit dir enabled r =
     r\<lparr>Exits := (if enabled then insert dir (Exits r) else Exits r - {dir})\<rparr>"

text \<open>
  Coordinates for the example: north is one step down the y axis, south one step up,
  any other direction stays in place.
\<close>

definition stepTowards :: "Coordinate \<Rightarrow> ExitDirection \<Rightarrow> Coordinate" where
  "stepTowards loc dir =
     (if dir = DirectionNorth then loc\<lparr>Y := Y loc - 1\<rparr>
      else if dir = DirectionSouth then loc\<lparr>Y := Y loc + 1\<rparr>
      else loc)"

text \<open>
  Two rooms of zone z1, the second one step north of the first, with no exits, and a
  third room of another zone; the example session is in the first.
\<close>

definition twoRooms :: RoomWorld where
  "twoRooms =
     \<lparr>roomHeap = (\<lambda>a.
        if a = 3 then \<lparr>Id = ''r1'', mutex = Unlocked, RoomZoneId = ''z1'',
                        Location = \<lparr>X = 0, Y = 0, Z = 0\<rparr>, Exits = {}\<rparr>
        else if a = 4 then \<lparr>Id = ''r2'', mutex = Unlocked, RoomZoneId = ''z1'',
                        Location = \<lparr>X = 0, Y = - 1, Z = 0\<rparr>, Exits = {}\<rparr>
        else \<lparr>Id = ''r3'', mutex = Unlocked, RoomZoneId = ''z2'',
              Location = \<lparr>X = 0, Y = 1, Z = 0\<rparr>, Exits = {}\<rparr>),
      allRooms = [3, 4, 7],
      roomDb = [],
      zoneIdOf = (\<lambda>z. if z = 5 then ''z1'' else ''z2'')\<rparr>"

section \<open>Area: what a call of SetName does\<close>

lemma SetName_held:
  "mutex self \<noteq> Unlocked \<Longrightarrow> SetName name self db = Inl Blocked"
  by (cases "mutex self") (simp_all add: SetName_def WriteLock_def)

lemma SetName_free:
  "mutex self = Unlocked \<Longrightarrow>
   SetName name self db =
     (if name \<noteq> Name self
      then Inr (self\<lparr>Name := name\<rparr>, db @ [self\<lparr>mutex := WriteLocked, Name := name\<rparr>])
      else Inr (self, db))"
  by (simp add: SetName_def WriteLock_def WriteUnlock_def objectModified_def Let_def)

lemma GetName_free:
  "mutex self = Unlocked \<Longrightarrow> GetName self = Inr (Name self, self)"
  by (simp add: GetName_def ReadLock_def ReadUnlock_def Let_def)

lemma GetZoneId_free:
  "mutex self = Unlocked \<Longrightarrow> GetZoneId self = Inr (ZoneId self, self)"
  by (simp add: GetZoneId_def ReadLock_def ReadUnlock_def Let_def)

text \<open>
  C3. Calling SetName with the name the area already has commits nothing and leaves
  the area as it was: whenever the call returns, it returns the area and the store
  unchanged, and on an area whose lock is free it does return. A commit happens only
  for a name that differs: a call that returns a longer store was given a new name.
\<close>

theorem SetName_same_name_no_commit:
  "(\<forall>self' db'. SetName (Name self) self db = Inr (self', db') \<longrightarrow> self' = self \<and> db' = db)
   \<and> (mutex self = Unlocked \<longrightarrow> SetName (Name self) self db = Inr (self, db))
   \<and> (\<forall>name self' db'. SetName name self db = Inr (self', db') \<and> db' \<noteq> db \<longrightarrow> name \<noteq> Name self)"
proof -
  have returns: "self' = self \<and> db' = db"
    if "SetName (Name self) self db = Inr (self', db')" for self' db'
    using that by (cases "mutex self = Unlocked") (auto simp: SetName_free SetName_held)
  have free: "SetName (Name self) self db = Inr (self, db)" if "mutex self = Unlocked"
    using that by (simp add: SetName_free)
  have differs: "name \<noteq> Name self"
    if "SetName name self db = Inr (self', db') \<and> db' \<noteq> db" for name self' db'
    using that
    by (cases "mutex self = Unlocked") (auto simp: SetName_free SetName_held split: if_splits)
  from returns free differs show ?thesis by blast
qed

theorem SetName_same_name_no_commit_witness:
  "SetName ''Docks'' \<lparr>Id = ''a1'', mutex = Unlocked, Name = ''Docks'', ZoneId = ''z1''\<rparr> []
     = Inr (\<lparr>Id = ''a1'', mutex = Unlocked, Name = ''Docks'', ZoneId = ''z1''\<rparr>, [])
   \<and> SetName ''Pier'' \<lparr>Id = ''a1'', mutex = Unlocked, Name = ''Docks'', ZoneId = ''z1''\<rparr> []
     \<noteq> Inr (\<lparr>Id = ''a1'', mutex = Unlocked, Name = ''Docks'', ZoneId = ''z1''\<rparr>, [])"
  using SetName_same_name_no_commit
    [of "\<lparr>Id = ''a1'', mutex = Unlocked, Name = ''Docks'', ZoneId = ''z1''\<rparr>" "[]"]
  by (simp add: SetName_free)

text \<open>
  C8. On an area whose lock is free, SetName with a name n that differs from the
  current one returns the area with Name n and every other field (ZoneId, identity,
  lock state) as before, its type still AreaType; it appends exactly one snapshot to the
  store, the area with the new name, taken while the write lock is held; and GetName
  on the result returns n.
\<close>

theorem SetName_new_name:
  assumes "mutex self = Unlocked" and "n \<noteq> Name self"
  shows "\<exists>self'. SetName n self db = Inr (self', db @ [self\<lparr>mutex := WriteLocked, Name := n\<rparr>])
           \<and> self' = self\<lparr>Name := n\<rparr>
           \<and> Name self' = n \<and> ZoneId self' = ZoneId self \<and> Id self' = Id self
           \<and> mutex self' = mutex self \<and> Area.more self' = Area.more self
           \<and> GetType self' = GetType self
           \<and> GetName self' = Inr (n, self')
           \<and> GetZoneId self' = Inr (ZoneId self, self')"
  using assms by (simp add: SetName_free GetName_free GetZoneId_free GetType_def)

theorem SetName_new_name_witness:
  "SetName ''Pier'' \<lparr>Id = ''a1'', mutex = Unlocked, Name = ''Docks'', ZoneId = ''z1''\<rparr> []
     = Inr (\<lparr>Id = ''a1'', mutex = Unlocked, Name = ''Pier'', ZoneId = ''z1''\<rparr>,
            [\<lparr>Id = ''a1'', mutex = WriteLocked, Name = ''Pier'', ZoneId = ''z1''\<rparr>])"
  using SetName_new_name
    [of "\<lparr>Id = ''a1'', mutex = Unlocked, Name = ''Docks'', ZoneId = ''z1''\<rparr>" "''Pier''" "[]"]
  by simp

section \<open>Session: events while the dispatcher waits for input\<close>

lemma processEvent_eq:
  "processEvent D event s = (ToString D event (player s), s\<lparr>room := refreshed D event (room s)\<rparr>)"
  by (cases event) (simp_all add: processEvent_def Let_def)

lemma selectCase_event:
  "selectCase D p (FromEventChannel event) s =
     (None, s\<lparr>conn := conn s @ eventShown D p s event, room := refreshed D event (room s)\<rparr>)"
  by (simp add: selectCase_def processEvent_eq eventShown_def Let_def
        printString_def printLine_def printLineColor_def clearLine_def)



lemma getUserInput_conn:
  "getUserInput D m p (Conn c # rest) s =
     (case readerBody D s m p c of
        Returns input \<Rightarrow> (Returned input, rest, s)
      | Panics v \<Rightarrow> (Panicked v, rest, s))"
  by (simp add: getUserInput.simps readerRound_def readerDeferred_def selectCase_def split: Call.splits)






section \<open>Session: the cached room\<close>

text \<open>
  C9. Processing a received event replaces the session's cached room by the event's
  room when the event is a room update whose room has the id of the cached room; an
  event that is no room update, or a room update for a room with another id, leaves the
  whole session, cached room and zone included, as it was. The zone is never touched,
  and the dispatcher's \<^verbatim>\<open>select\<close> caches the room \<^verbatim>\<open>processEvent\<close> gives.
\<close>

theorem processEvent_room:
  "(\<forall>r. event = RoomUpdateEvent r \<and> RoomGetId D r = RoomGetId D (room session) \<longrightarrow>
        snd (processEvent D event session) = session\<lparr>room := r\<rparr>)
   \<and> ((\<forall>r. event = RoomUpdateEvent r \<longrightarrow> RoomGetId D r \<noteq> RoomGetId D (room session)) \<longrightarrow>
        snd (processEvent D event session) = session)
   \<and> zone (snd (processEvent D event session)) = zone session
   \<and> room (snd (selectCase D p (FromEventChannel event) session))
        = room (snd (processEvent D event session))
   \<and> zone (snd (selectCase D p (FromEventChannel event) session)) = zone session"
  by (cases event) (simp_all add: processEvent_eq selectCase_event)

theorem processEvent_room_witness:
  "snd (processEvent exampleDeps (RoomUpdateEvent 4) exampleSession) = exampleSession\<lparr>room := 4\<rparr>
   \<and> snd (processEvent exampleDeps (RoomUpdateEvent 7) exampleSession) = exampleSession
   \<and> snd (processEvent exampleDeps (OtherEvent 0) exampleSession) = exampleSession"
proof -
  have same: "RoomGetId exampleDeps 4 = RoomGetId exampleDeps (room exampleSession)"
    by (simp add: exampleDeps_def exampleSession_def)
  have other: "\<forall>r. RoomUpdateEvent 7 = RoomUpdateEvent r \<longrightarrow>
                 RoomGetId exampleDeps r \<noteq> RoomGetId exampleDeps (room exampleSession)"
    by (simp add: exampleDeps_def exampleSession_def)
  have none: "\<forall>r. OtherEvent 0 = RoomUpdateEvent r \<longrightarrow>
                 RoomGetId exampleDeps r \<noteq> RoomGetId exampleDeps (room exampleSession)"
    by simp
  have a: "snd (processEvent exampleDeps (RoomUpdateEvent 4) exampleSession) = exampleSession\<lparr>room := 4\<rparr>"
    using processEvent_room [of "RoomUpdateEvent 4" exampleDeps exampleSession] same by blast
  have b: "snd (processEvent exampleDeps (RoomUpdateEvent 7) exampleSession) = exampleSession"
    using processEvent_room [of "RoomUpdateEvent 7" exampleDeps exampleSession] other by blast
  have c: "snd (processEvent exampleDeps (OtherEvent 0) exampleSession) = exampleSession"
    using processEvent_room [of "OtherEvent 0" exampleDeps exampleSession] none by blast
  from a b c show ?thesis by blast
qed

section \<open>Session: the main loop, its end and the reader's failures\<close>









lemma mainLoop_input:
  assumes "getUserInput D RawUserInput prompt tr session = (Returned input, rest, session')"
  shows "mainLoop D (Suc fuel) tr session world =
           (if input = [] \<or> input = ''logout''
            then Some (Returned (), rest, session', world)
            else
              (case (if take 1 input = ''/''
                     then processCommand D (Argify D (drop 1 input)) rest session' world
                     else handleAction D (Argify D input) rest session' world) of
                 (Returned u, rest', session'', world') \<Rightarrow> mainLoop D fuel rest' session'' world'
               | (Panicked q, after) \<Rightarrow> Some (Panicked q, after)
               | (Waiting, after) \<Rightarrow> Some (Waiting, after)))"
  using assms by (simp add: mainLoop.simps)








section \<open>Session: how the main loop ends and goes on\<close>





text \<open>
  C10. \<^verbatim>\<open>GetRawUserInput\<close> returns the line as it is, case and surrounding blanks
  kept, except for a line that is exactly x or X, for which it returns the empty string.
  The main loop reads in raw mode, so what \<^verbatim>\<open>getUserInput\<close> returns there is that
  result, and a lone x or X ends the main loop as the empty input does.
\<close>

theorem raw_input_verbatim_except_x:
  assumes "GetRawUserInput D (Colorize D (GetColorMode D (user session)) ColorWhite prompt) c
             = Returns (utils_GetRawUserInput (Colorize D (GetColorMode D (user session)) ColorWhite prompt) line)"
  shows "utils_GetRawUserInput q line = (if line = ''x'' \<or> line = ''X'' then [] else line)
         \<and> getUserInput D RawUserInput prompt (Conn c # rest) session
             = (Returned (if line = ''x'' \<or> line = ''X'' then [] else line), rest, session)
         \<and> (line = ''x'' \<or> line = ''X'' \<longrightarrow>
               mainLoop D (Suc fuel) (Conn c # rest) session world
                 = Some (Returned (), rest, session, world))"
proof -
  have raw: "utils_GetRawUserInput r line = (if line = ''x'' \<or> line = ''X'' then [] else line)" for r
    by (simp add: utils_GetRawUserInput_def)
  have body: "readerBody D session RawUserInput prompt c
                = Returns (if line = ''x'' \<or> line = ''X'' then [] else line)"
    using assms by (simp add: readerBody_def RawUserInput_def CleanUserInput_def raw Let_def)
  have got: "getUserInput D RawUserInput prompt (Conn c # rest) session
               = (Returned (if line = ''x'' \<or> line = ''X'' then [] else line), rest, session)"
    by (simp add: getUserInput_conn body)
  have ends: "mainLoop D (Suc fuel) (Conn c # rest) session world
                = Some (Returned (), rest, session, world)" if "line = ''x'' \<or> line = ''X''"
    using that by (simp add: mainLoop_input [OF got])
  from raw got ends show ?thesis by blast
qed

theorem raw_input_verbatim_except_x_witness:
  "mainLoop exampleDeps (Suc 0) [Conn (Returns ''x''), Conn (Returns ''look'')] exampleSession ()
     = Some (Returned (), [Conn (Returns ''look'')], exampleSession, ())
   \<and> getUserInput exampleDeps RawUserInput prompt [Conn (Returns '' test3 '')] exampleSession
     = (Returned '' test3 '', [], exampleSession)
   \<and> utils_GetRawUserInput ''>'' ''Test1'' = ''Test1''
   \<and> utils_GetRawUserInput ''>'' ''TEST2'' = ''TEST2''
   \<and> utils_GetRawUserInput ''>'' '' test3 '' = '' test3 ''
   \<and> utils_GetRawUserInput ''>'' ''x'' = []
   \<and> utils_GetRawUserInput ''>'' ''X'' = []"
proof -
  have read: "GetRawUserInput exampleDeps
                (Colorize exampleDeps (GetColorMode exampleDeps (user exampleSession)) ColorWhite prompt)
                (Returns line)
              = Returns (utils_GetRawUserInput
                  (Colorize exampleDeps (GetColorMode exampleDeps (user exampleSession)) ColorWhite prompt)
                  line)" for line
    by (simp add: exampleDeps_def)
  have isx: "''x'' = ''x'' \<or> ''x'' = ''X''" by simp
  have a: "mainLoop exampleDeps (Suc 0) [Conn (Returns ''x''), Conn (Returns ''look'')] exampleSession ()
     = Some (Returned (), [Conn (Returns ''look'')], exampleSession, ())"
    using raw_input_verbatim_except_x [OF read, THEN conjunct2, THEN conjunct2, THEN mp, OF isx] .
  have b: "getUserInput exampleDeps RawUserInput prompt [Conn (Returns '' test3 '')] exampleSession
     = (Returned '' test3 '', [], exampleSession)"
    using raw_input_verbatim_except_x [OF read, where line = "'' test3 ''" and rest = "[]",
      THEN conjunct2, THEN conjunct1]
    by simp
  have c: "utils_GetRawUserInput ''>'' ''Test1'' = ''Test1''
   \<and> utils_GetRawUserInput ''>'' ''TEST2'' = ''TEST2''
   \<and> utils_GetRawUserInput ''>'' '' test3 '' = '' test3 ''
   \<and> utils_GetRawUserInput ''>'' ''x'' = []
   \<and> utils_GetRawUserInput ''>'' ''X'' = []"
    by (simp add: utils_GetRawUserInput_def)
  from a b c show ?thesis by blast
qed

section \<open>Session: the spacing of accepted inputs\<close>

lemma deliveredAt_after: "lastTime + delay \<le> deliveredAt lastTime r"
  by (simp add: deliveredAt_def throttleSleep_def Let_def)

lemma readerDeliveries_after:
  "t \<in> set (readerDeliveries lastTime rounds) \<Longrightarrow> lastTime + delay \<le> t"
proof (induction rounds arbitrary: lastTime)
  case Nil
  then show ?case by simp
next
  case (Cons r rounds)
  from Cons.prems
  have "t = deliveredAt lastTime r
          \<or> t \<in> set (readerDeliveries (deliveredAt lastTime r + int (stampTook r)) rounds)"
    by (simp add: Let_def)
  then show ?case
  proof
    assume "t = deliveredAt lastTime r"
    then show ?thesis by (simp add: deliveredAt_after)
  next
    assume "t \<in> set (readerDeliveries (deliveredAt lastTime r + int (stampTook r)) rounds)"
    then have "deliveredAt lastTime r + int (stampTook r) + delay \<le> t" by (rule Cons.IH)
    moreover have "0 \<le> delay" by (simp add: delay_def)
    moreover have "lastTime + delay \<le> deliveredAt lastTime r" by (rule deliveredAt_after)
    ultimately show ?thesis by linarith
  qed
qed

lemma readerDeliveries_spaced:
  "successively (\<lambda>a b. a + delay \<le> b) (readerDeliveries lastTime rounds)"
proof (induction rounds arbitrary: lastTime)
  case Nil
  show ?case by simp
next
  case (Cons r rounds)
  let ?stamped = "deliveredAt lastTime r + int (stampTook r)"
  have later: "successively (\<lambda>a b. a + delay \<le> b) (readerDeliveries ?stamped rounds)"
    by (rule Cons.IH)
  have "successively (\<lambda>a b. a + delay \<le> b) (deliveredAt lastTime r # readerDeliveries ?stamped rounds)"
  proof (cases "readerDeliveries ?stamped rounds")
    case Nil
    then show ?thesis by simp
  next
    case next_one: (Cons d ds)
    then have "d \<in> set (readerDeliveries ?stamped rounds)" by simp
    then have "?stamped + delay \<le> d" by (rule readerDeliveries_after)
    then have "deliveredAt lastTime r + delay \<le> d" by linarith
    then show ?thesis using later next_one by simp
  qed
  then show ?case by (simp add: Let_def)
qed

lemma spaced_span:
  "successively (\<lambda>a b. a + (g::int) \<le> b) (x # xs) \<Longrightarrow> x + int (length xs) * g \<le> last (x # xs)"
proof (induction xs arbitrary: x)
  case Nil
  then show ?case by simp
next
  case (Cons y ys)
  then have step: "x + g \<le> y" and rest: "successively (\<lambda>a b. a + g \<le> b) (y # ys)"
    by simp_all
  from Cons.IH [OF rest] have "y + int (length ys) * g \<le> last (y # ys)" .
  with step have "x + g + int (length ys) * g \<le> last (y # ys)" by linarith
  then show ?case by (simp add: algebra_simps)
qed

lemma readerDeliveries_length: "length (readerDeliveries lastTime rounds) = length rounds"
  by (induction rounds arbitrary: lastTime) (simp_all add: Let_def)

text \<open>
  C2. Whatever time the reads, the sleeps beyond their duration, the sends and the
  stamps take, each input is delivered to the dispatcher at least 200ms after the one
  before it: a read that completes less than the delay after the last stamp makes the
  reader sleep the remainder of the delay before it sends. So from the first delivery
  to the last of n inputs at least (n - 1) times 200ms pass.
\<close>

theorem reader_throttle:
  "successively (\<lambda>a b. a + delay \<le> b) (readerDeliveries lastTime rounds)
   \<and> (rounds \<noteq> [] \<longrightarrow>
        hd (readerDeliveries lastTime rounds) + (int (length rounds) - 1) * delay
          \<le> last (readerDeliveries lastTime rounds))
   \<and> (\<forall>diff. diff < delay \<longrightarrow> throttleSleep diff = Some (delay - diff))
   \<and> delay = 200 * 1000000"
proof (intro conjI impI allI)
  show "successively (\<lambda>a b. a + delay \<le> b) (readerDeliveries lastTime rounds)"
    by (rule readerDeliveries_spaced)
next
  assume "rounds \<noteq> []"
  then have "readerDeliveries lastTime rounds \<noteq> []"
    using readerDeliveries_length [of lastTime rounds] by auto
  then obtain d ds where ds: "readerDeliveries lastTime rounds = d # ds"
    by (cases "readerDeliveries lastTime rounds") auto
  have len: "int (length ds) = int (length rounds) - 1"
    using readerDeliveries_length [of lastTime rounds] ds by simp
  have "successively (\<lambda>a b. a + delay \<le> b) (d # ds)"
    using readerDeliveries_spaced [of lastTime rounds] ds by simp
  from spaced_span [OF this] show
    "hd (readerDeliveries lastTime rounds) + (int (length rounds) - 1) * delay
          \<le> last (readerDeliveries lastTime rounds)"
    by (simp add: ds len)
next
  fix diff :: int
  assume "diff < delay"
  then show "throttleSleep diff = Some (delay - diff)" by (simp add: throttleSleep_def)
next
  show "delay = 200 * 1000000" by (simp add: delay_def)
qed

theorem reader_throttle_witness:
  "readerDeliveries 0 [atOnce, atOnce, atOnce, atOnce, atOnce]
     = [200000000, 400000000, 600000000, 800000000, 1000000000]
   \<and> hd (readerDeliveries 0 [atOnce, atOnce, atOnce, atOnce, atOnce]) + 4 * delay
       \<le> last (readerDeliveries 0 [atOnce, atOnce, atOnce, atOnce, atOnce])
   \<and> throttleSleep 50000000 = Some 150000000"
proof -
  have five: "[atOnce, atOnce, atOnce, atOnce, atOnce] \<noteq> []" by simp
  have early: "(50000000::int) < delay" by (simp add: delay_def)
  have a: "readerDeliveries 0 [atOnce, atOnce, atOnce, atOnce, atOnce]
     = [200000000, 400000000, 600000000, 800000000, 1000000000]"
    by (simp add: atOnce_def deliveredAt_def throttleSleep_def delay_def Let_def)
  have b: "hd (readerDeliveries 0 [atOnce, atOnce, atOnce, atOnce, atOnce]) + 4 * delay
       \<le> last (readerDeliveries 0 [atOnce, atOnce, atOnce, atOnce, atOnce])"
    using reader_throttle [of 0 "[atOnce, atOnce, atOnce, atOnce, atOnce]",
        THEN conjunct2, THEN conjunct1, THEN mp, OF five]
    by simp
  have c: "throttleSleep 50000000 = Some 150000000"
    using reader_throttle [of 0 "[]", THEN conjunct2, THEN conjunct2, THEN conjunct1,
        THEN spec, THEN mp, OF early]
    by (simp add: delay_def)
  from a b c show ?thesis by blast
qed

section \<open>Commands: the name check of the zone command\<close>

lemma zoneCommand_new:
  "zoneCommand D M [''new'', name] session world =
     (case GetZoneByName M ''new'' world of
        Some z \<Rightarrow> (printError D ''A zone with that name already exists'' session, world)
      | None \<Rightarrow>
          (let (newZone, world1) = CreateZone M name world;
               (newRoom, world2) = CreateRoom M newZone world1;
               world3 = MoveCharacterToRoom M (player session) newRoom world2
           in (printRoom D world3 (session\<lparr>zone := newZone, room := newRoom\<rparr>), world3)))"
  by (simp add: zoneCommand_def Let_def split_def One_nat_def split: option.splits)

lemma zoneCommand_rename:
  "zoneCommand D M [''rename'', name] session world =
     (case GetZoneByName M ''rename'' world of
        Some z \<Rightarrow> (printError D ''A zone with that name already exists'' session, world)
      | None \<Rightarrow>
          (if ZoneGetId M (zone session) world = []
           then (let (created, world1) = CreateZone M name world
                 in (session\<lparr>zone := created\<rparr>,
                     MoveRoomsToZone M [] (ZoneGetId M created world1) world1))
           else (session, ZoneSetName M name (zone session) world)))"
  by (simp add: zoneCommand_def Let_def split_def One_nat_def split: option.splits)

text \<open>
  C7. \<^verbatim>\<open>/zone new <name>\<close> and \<^verbatim>\<open>/zone rename <name>\<close> are to be
  rejected when a zone of the requested name exists. The command looks a zone up under
  its own keyword (its first argument), not under the requested name (its second). In
  a world whose only zone is named foo, \<^verbatim>\<open>/zone new foo\<close> creates a second zone
  named foo with a room and moves the player there, with no error; where zones foo and
  new exist, \<^verbatim>\<open>/zone rename new\<close> gives the player's zone foo the name new as well; and
  there \<^verbatim>\<open>/zone new bar\<close> is rejected with the error although no zone is named bar.
\<close>

theorem zone_name_check_looks_up_keyword:
  "GetZoneByName tableModel ''foo'' fooWorld = Some 5
   \<and> zoneCommand tableDeps tableModel [''new'', ''foo''] exampleSession fooWorld
       = (\<lparr>conn = [WriteLine ''A room''], user = 1, player = 2, room = 4, zone = 6\<rparr>,
          \<lparr>zoneTable = [(5, ''z1'', ''foo''), (6, ''zone-foo'', ''foo'')],
           roomTable = [(3, ''z1''), (4, ''zone-foo'')], whereabouts = [(2, 4)]\<rparr>)
   \<and> GetZoneByName tableModel ''new'' newWorld = Some 6
   \<and> zoneCommand tableDeps tableModel [''rename'', ''new''] exampleSession newWorld
       = (exampleSession,
          \<lparr>zoneTable = [(5, ''z1'', ''new''), (6, ''z2'', ''new'')],
           roomTable = [(3, ''z1'')], whereabouts = [(2, 3)]\<rparr>)
   \<and> GetZoneByName tableModel ''bar'' newWorld = None
   \<and> zoneCommand tableDeps tableModel [''new'', ''bar''] exampleSession newWorld
       = (\<lparr>conn = [WriteLine ''A zone with that name already exists''],
           user = 1, player = 2, room = 3, zone = 5\<rparr>, newWorld)"
proof -
  have a: "GetZoneByName tableModel ''foo'' fooWorld = Some 5"
    by (simp add: tableModel_def fooWorld_def)
  have b: "zoneCommand tableDeps tableModel [''new'', ''foo''] exampleSession fooWorld
       = (\<lparr>conn = [WriteLine ''A room''], user = 1, player = 2, room = 4, zone = 6\<rparr>,
          \<lparr>zoneTable = [(5, ''z1'', ''foo''), (6, ''zone-foo'', ''foo'')],
           roomTable = [(3, ''z1''), (4, ''zone-foo'')], whereabouts = [(2, 4)]\<rparr>)"
    by (simp add: zoneCommand_new tableModel_def fooWorld_def exampleSession_def tableDeps_def
          printRoom_def printLine_def printLineColor_def Let_def)
  have c: "GetZoneByName tableModel ''new'' newWorld = Some 6"
    by (simp add: tableModel_def newWorld_def)
  have d: "zoneCommand tableDeps tableModel [''rename'', ''new''] exampleSession newWorld
       = (exampleSession,
          \<lparr>zoneTable = [(5, ''z1'', ''new''), (6, ''z2'', ''new'')],
           roomTable = [(3, ''z1'')], whereabouts = [(2, 3)]\<rparr>)"
    by (simp add: zoneCommand_rename tableModel_def newWorld_def exampleSession_def Let_def)
  have e: "GetZoneByName tableModel ''bar'' newWorld = None"
    by (simp add: tableModel_def newWorld_def)
  have f: "zoneCommand tableDeps tableModel [''new'', ''bar''] exampleSession newWorld
       = (\<lparr>conn = [WriteLine ''A zone with that name already exists''],
           user = 1, player = 2, room = 3, zone = 5\<rparr>, newWorld)"
    by (simp add: zoneCommand_new tableModel_def newWorld_def exampleSession_def tableDeps_def
          printError_def printLineColor_def)
  from a b c d e f show ?thesis by blast
qed

section \<open>Commands: the exit editor's toggle\<close>

lemma HasExit_free:
  "mutex r = Unlocked \<Longrightarrow> HasExit d r = Inr (d \<in> Exits r, r)"
  by (simp add: HasExit_def ReadLock_def ReadUnlock_def Let_def)

lemma NextLocation_free:
  "mutex r = Unlocked \<Longrightarrow> NextLocation towards d r = Inr (towards (Location r) d, r)"
  by (simp add: NextLocation_def ReadLock_def ReadUnlock_def Let_def)

lemma SetExitEnabled_free:
  "mutex r = Unlocked \<Longrightarrow>
   SetExitEnabled d b r db =
     (if b \<noteq> (d \<in> Exits r)
      then Inr (withExit d b r, db @ [(withExit d b r)\<lparr>mutex := WriteLocked\<rparr>])
      else Inr (r, db))"
  by (simp add: SetExitEnabled_def WriteLock_def WriteUnlock_def objectModified_def
        withExit_def Let_def)

lemma withExit_fields:
  "Location (withExit d b r) = Location r" "RoomZoneId (withExit d b r) = RoomZoneId r"
  "mutex (withExit d b r) = mutex r" "Id (withExit d b r) = Id r"
  "(d \<in> Exits (withExit d b r)) = b"
  "e \<noteq> d \<Longrightarrow> (e \<in> Exits (withExit d b r)) = (e \<in> Exits r)"
  by (simp_all add: withExit_def)

lemma GetRoomByLocation_withExit:
  "GetRoomByLocation loc z
     (world\<lparr>roomDb := db, roomHeap := (roomHeap world)(a := withExit d b (roomHeap world a))\<rparr>)
   = GetRoomByLocation loc z world"
  unfolding GetRoomByLocation_def
  by (rule find_cong) (auto simp: withExit_fields)

lemma GetRoomByLocation_place:
  "GetRoomByLocation loc z world = Some a \<Longrightarrow> Location (roomHeap world a) = loc"
  by (auto simp: GetRoomByLocation_def find_Some_iff)

lemma toggleExit_alone:
  assumes "StringToDirection choice = d" and "d \<noteq> DirectionNone"
    and "mutex (roomHeap world (room session)) = Unlocked"
    and "GetRoomByLocation (towards (Location (roomHeap world (room session))) d) (zone session) world = None"
  shows "toggleExit towards choice session world =
           Inr (world\<lparr>roomHeap := (roomHeap world)
                         (room session := withExit d (d \<notin> Exits (roomHeap world (room session)))
                                            (roomHeap world (room session))),
                      roomDb := roomDb world
                         @ [(withExit d (d \<notin> Exits (roomHeap world (room session)))
                               (roomHeap world (room session)))\<lparr>mutex := WriteLocked\<rparr>]\<rparr>)"
  using assms
  by (simp add: toggleExit_def Let_def HasExit_free SetExitEnabled_free NextLocation_free
        withExit_fields GetRoomByLocation_withExit)


lemma toggleExit_both:
  assumes "StringToDirection choice = d" and "d \<noteq> DirectionNone"
    and "mutex (roomHeap world (room session)) = Unlocked"
    and "GetRoomByLocation (towards (Location (roomHeap world (room session))) d) (zone session) world
           = Some other"
    and "other \<noteq> room session"
    and "mutex (roomHeap world other) = Unlocked"
  shows "toggleExit towards choice session world =
           Inr (world\<lparr>roomHeap := (roomHeap world)
                         (room session := withExit d (d \<notin> Exits (roomHeap world (room session)))
                                            (roomHeap world (room session)),
                          other := (if (d \<notin> Exits (roomHeap world (room session)))
                                         \<noteq> (Opposite d \<in> Exits (roomHeap world other))
                                    then withExit (Opposite d) (d \<notin> Exits (roomHeap world (room session)))
                                           (roomHeap world other)
                                    else roomHeap world other)),
                      roomDb := roomDb world
                         @ [(withExit d (d \<notin> Exits (roomHeap world (room session)))
                               (roomHeap world (room session)))\<lparr>mutex := WriteLocked\<rparr>]
                         @ (if (d \<notin> Exits (roomHeap world (room session)))
                                 \<noteq> (Opposite d \<in> Exits (roomHeap world other))
                            then [(withExit (Opposite d) (d \<notin> Exits (roomHeap world (room session)))
                                     (roomHeap world other))\<lparr>mutex := WriteLocked\<rparr>]
                            else [])\<rparr>)"
  using assms
  by (simp add: toggleExit_def Let_def HasExit_free SetExitEnabled_free NextLocation_free
        withExit_fields GetRoomByLocation_withExit)


lemma withExit_same: "(d \<in> Exits r) = b \<Longrightarrow> withExit d b r = r"
  by (cases b) (auto simp: withExit_def insert_absorb)

text \<open>
  C6. In the exit editor, a choice that names a direction d toggles the exit d of the
  session's room: the room ends with that exit in the new state and is committed under
  its own write lock. When the model has a room of the session's zone at the adjacent
  location in direction d, that room's exit in the opposite direction is then set to the
  same state, under that room's own write lock and after the first room's lock has been
  released, and no third room changes; the commits follow one another in that order.
  When there is no such room, only the session's room changes. All locks are free
  again afterwards.
\<close>

theorem toggle_exit_and_neighbour:
  assumes "StringToDirection choice = d" and "d \<noteq> DirectionNone"
    and "current = roomHeap world (room session)"
    and "enable = (d \<notin> Exits current)"
    and "next = GetRoomByLocation (towards (Location current) d) (zone session) world"
    and "towards (Location current) d \<noteq> Location current"
    and "mutex current = Unlocked"
    and "\<forall>other. next = Some other \<longrightarrow> mutex (roomHeap world other) = Unlocked"
  shows "\<exists>world'. toggleExit towards choice session world = Inr world'
           \<and> roomHeap world' (room session) = withExit d enable current
           \<and> (d \<in> Exits (roomHeap world' (room session))) = enable
           \<and> (\<forall>a. mutex (roomHeap world' a) = mutex (roomHeap world a))
           \<and> (case next of
                 None \<Rightarrow>
                   (\<forall>a. a \<noteq> room session \<longrightarrow> roomHeap world' a = roomHeap world a)
                   \<and> roomDb world' = roomDb world @ [(withExit d enable current)\<lparr>mutex := WriteLocked\<rparr>]
               | Some other \<Rightarrow>
                   other \<noteq> room session
                   \<and> roomHeap world' other = withExit (Opposite d) enable (roomHeap world other)
                   \<and> (Opposite d \<in> Exits (roomHeap world' other)) = enable
                   \<and> (\<forall>a. a \<noteq> room session \<and> a \<noteq> other \<longrightarrow> roomHeap world' a = roomHeap world a)
                   \<and> roomDb world' = roomDb world
                         @ [(withExit d enable current)\<lparr>mutex := WriteLocked\<rparr>]
                         @ (if enable \<noteq> (Opposite d \<in> Exits (roomHeap world other))
                            then [(withExit (Opposite d) enable (roomHeap world other))\<lparr>mutex := WriteLocked\<rparr>]
                            else []))"
proof (cases "next")
  case None
  with assms have none: "GetRoomByLocation (towards (Location (roomHeap world (room session))) d)
                     (zone session) world = None"
    by simp
  have free: "mutex (roomHeap world (room session)) = Unlocked"
    using assms by simp
  show ?thesis
    using None assms(3,4)
    by (simp add: toggleExit_alone [where towards = towards, OF assms(1,2) free none] withExit_fields)
next
  case (Some other)
  with assms have found: "GetRoomByLocation (towards (Location (roomHeap world (room session))) d)
                     (zone session) world = Some other"
    by simp
  have free: "mutex (roomHeap world (room session)) = Unlocked"
    using assms by simp
  have "Location (roomHeap world other) = towards (Location current) d"
    using GetRoomByLocation_place [OF found] assms(3) by simp
  with assms(6) have "Location (roomHeap world other) \<noteq> Location current" by simp
  with assms(3) have distinct: "other \<noteq> room session" by auto
  have ofree: "mutex (roomHeap world other) = Unlocked"
    using assms(8) Some by simp
  show ?thesis
    using Some assms(3,4) distinct
    by (simp add: toggleExit_both [where towards = towards, OF assms(1,2) free found distinct ofree]
          withExit_fields withExit_same)
qed

theorem toggle_exit_and_neighbour_witness:
  "(\<exists>world'. toggleExit stepTowards ''n'' exampleSession twoRooms = Inr world'
      \<and> Exits (roomHeap world' 3) = {DirectionNorth}
      \<and> Exits (roomHeap world' 4) = {DirectionSouth}
      \<and> roomHeap world' 7 = roomHeap twoRooms 7
      \<and> map Id (roomDb world') = [''r1'', ''r2'']
      \<and> map mutex (roomDb world') = [WriteLocked, WriteLocked])
   \<and> (\<exists>world'. toggleExit stepTowards ''s'' exampleSession twoRooms = Inr world'
      \<and> Exits (roomHeap world' 3) = {DirectionSouth}
      \<and> roomHeap world' 4 = roomHeap twoRooms 4
      \<and> roomHeap world' 7 = roomHeap twoRooms 7
      \<and> map Id (roomDb world') = [''r1''])"
proof -
  let ?cur = "roomHeap twoRooms (room exampleSession)"
  have cur: "?cur = \<lparr>Id = ''r1'', mutex = Unlocked, RoomZoneId = ''z1'',
                     Location = \<lparr>X = 0, Y = 0, Z = 0\<rparr>, Exits = {}\<rparr>"
    by (simp add: twoRooms_def exampleSession_def)
  have here: "room exampleSession = 3"
    by (simp add: exampleSession_def)
  have cur3: "roomHeap twoRooms 3 = \<lparr>Id = ''r1'', mutex = Unlocked, RoomZoneId = ''z1'',
                     Location = \<lparr>X = 0, Y = 0, Z = 0\<rparr>, Exits = {}\<rparr>"
    by (simp add: twoRooms_def)
  have free: "mutex ?cur = Unlocked"
    by (simp add: cur)
  have dn: "StringToDirection ''n'' = DirectionNorth"
    by (simp add: StringToDirection_def)
  have nn: "DirectionNorth \<noteq> DirectionNone"
    by simp
  have movesN: "stepTowards (Location ?cur) DirectionNorth \<noteq> Location ?cur"
    by (simp add: cur stepTowards_def)
  have nextN: "GetRoomByLocation (stepTowards (Location ?cur) DirectionNorth) (zone exampleSession) twoRooms
                 = Some 4"
    by (simp add: cur stepTowards_def GetRoomByLocation_def twoRooms_def exampleSession_def)
  have ofreeN: "\<forall>other. GetRoomByLocation (stepTowards (Location ?cur) DirectionNorth)
                     (zone exampleSession) twoRooms = Some other
                  \<longrightarrow> mutex (roomHeap twoRooms other) = Unlocked"
    by (simp add: nextN twoRooms_def)
  have r2: "roomHeap twoRooms 4 = \<lparr>Id = ''r2'', mutex = Unlocked, RoomZoneId = ''z1'',
                     Location = \<lparr>X = 0, Y = - 1, Z = 0\<rparr>, Exits = {}\<rparr>"
    by (simp add: twoRooms_def)
  have db: "roomDb twoRooms = []"
    by (simp add: twoRooms_def)
  from toggle_exit_and_neighbour [where towards = stepTowards, OF dn nn refl refl refl movesN free ofreeN]
  obtain wn where wn: "toggleExit stepTowards ''n'' exampleSession twoRooms = Inr wn"
    and curN: "roomHeap wn (room exampleSession)
                 = withExit DirectionNorth (DirectionNorth \<notin> Exits ?cur) ?cur"
    and restN: "case GetRoomByLocation (stepTowards (Location ?cur) DirectionNorth)
                       (zone exampleSession) twoRooms of
                  None \<Rightarrow>
                    (\<forall>a. a \<noteq> room exampleSession \<longrightarrow> roomHeap wn a = roomHeap twoRooms a)
                    \<and> roomDb wn = roomDb twoRooms
                          @ [(withExit DirectionNorth (DirectionNorth \<notin> Exits ?cur) ?cur)\<lparr>mutex := WriteLocked\<rparr>]
                | Some other \<Rightarrow>
                    other \<noteq> room exampleSession
                    \<and> roomHeap wn other
                        = withExit (Opposite DirectionNorth) (DirectionNorth \<notin> Exits ?cur) (roomHeap twoRooms other)
                    \<and> (Opposite DirectionNorth \<in> Exits (roomHeap wn other)) = (DirectionNorth \<notin> Exits ?cur)
                    \<and> (\<forall>a. a \<noteq> room exampleSession \<and> a \<noteq> other \<longrightarrow> roomHeap wn a = roomHeap twoRooms a)
                    \<and> roomDb wn = roomDb twoRooms
                          @ [(withExit DirectionNorth (DirectionNorth \<notin> Exits ?cur) ?cur)\<lparr>mutex := WriteLocked\<rparr>]
                          @ (if (DirectionNorth \<notin> Exits ?cur) \<noteq> (Opposite DirectionNorth \<in> Exits (roomHeap twoRooms other))
                             then [(withExit (Opposite DirectionNorth) (DirectionNorth \<notin> Exits ?cur)
                                      (roomHeap twoRooms other))\<lparr>mutex := WriteLocked\<rparr>]
                             else [])"
    by blast
  from restN [unfolded nextN]
  have otherN: "roomHeap wn 4
                  = withExit (Opposite DirectionNorth) (DirectionNorth \<notin> Exits ?cur) (roomHeap twoRooms 4)"
    and frameN: "\<forall>a. a \<noteq> room exampleSession \<and> a \<noteq> 4 \<longrightarrow> roomHeap wn a = roomHeap twoRooms a"
    and dbN: "roomDb wn = roomDb twoRooms
                @ [(withExit DirectionNorth (DirectionNorth \<notin> Exits ?cur) ?cur)\<lparr>mutex := WriteLocked\<rparr>]
                @ (if (DirectionNorth \<notin> Exits ?cur) \<noteq> (Opposite DirectionNorth \<in> Exits (roomHeap twoRooms 4))
                   then [(withExit (Opposite DirectionNorth) (DirectionNorth \<notin> Exits ?cur)
                            (roomHeap twoRooms 4))\<lparr>mutex := WriteLocked\<rparr>]
                   else [])"
    by simp_all
  have n3: "Exits (roomHeap wn 3) = {DirectionNorth}"
    using curN [unfolded here] by (simp add: cur3 withExit_def)
  have n4: "Exits (roomHeap wn 4) = {DirectionSouth}"
    by (simp add: otherN cur r2 withExit_def)
  have n7: "roomHeap wn 7 = roomHeap twoRooms 7"
    using frameN [unfolded here, THEN spec, of 7] by simp
  have nIds: "map Id (roomDb wn) = [''r1'', ''r2'']"
    by (simp add: dbN db cur r2 withExit_def)
  have nLocks: "map mutex (roomDb wn) = [WriteLocked, WriteLocked]"
    by (simp add: dbN db cur r2 withExit_def)
  have north: "\<exists>world'. toggleExit stepTowards ''n'' exampleSession twoRooms = Inr world'
      \<and> Exits (roomHeap world' 3) = {DirectionNorth}
      \<and> Exits (roomHeap world' 4) = {DirectionSouth}
      \<and> roomHeap world' 7 = roomHeap twoRooms 7
      \<and> map Id (roomDb world') = [''r1'', ''r2'']
      \<and> map mutex (roomDb world') = [WriteLocked, WriteLocked]"
    by (rule exI [of _ wn]) (simp add: wn n3 n4 n7 nIds nLocks)
  have ds: "StringToDirection ''s'' = DirectionSouth"
    by (simp add: StringToDirection_def)
  have sn: "DirectionSouth \<noteq> DirectionNone"
    by simp
  have movesS: "stepTowards (Location ?cur) DirectionSouth \<noteq> Location ?cur"
    by (simp add: cur stepTowards_def)
  have nextS: "GetRoomByLocation (stepTowards (Location ?cur) DirectionSouth) (zone exampleSession) twoRooms
                 = None"
    by (simp add: cur stepTowards_def GetRoomByLocation_def twoRooms_def exampleSession_def)
  have ofreeS: "\<forall>other. GetRoomByLocation (stepTowards (Location ?cur) DirectionSouth)
                     (zone exampleSession) twoRooms = Some other
                  \<longrightarrow> mutex (roomHeap twoRooms other) = Unlocked"
    by (simp add: nextS)
  from toggle_exit_and_neighbour [where towards = stepTowards, OF ds sn refl refl refl movesS free ofreeS]
  obtain ws where ws: "toggleExit stepTowards ''s'' exampleSession twoRooms = Inr ws"
    and curS: "roomHeap ws (room exampleSession)
                 = withExit DirectionSouth (DirectionSouth \<notin> Exits ?cur) ?cur"
    and restS: "case GetRoomByLocation (stepTowards (Location ?cur) DirectionSouth)
                       (zone exampleSession) twoRooms of
                  None \<Rightarrow>
                    (\<forall>a. a \<noteq> room exampleSession \<longrightarrow> roomHeap ws a = roomHeap twoRooms a)
                    \<and> roomDb ws = roomDb twoRooms
                          @ [(withExit DirectionSouth (DirectionSouth \<notin> Exits ?cur) ?cur)\<lparr>mutex := WriteLocked\<rparr>]
                | Some other \<Rightarrow>
                    other \<noteq> room exampleSession
                    \<and> roomHeap ws other
                        = withExit (Opposite DirectionSouth) (DirectionSouth \<notin> Exits ?cur) (roomHeap twoRooms other)
                    \<and> (Opposite DirectionSouth \<in> Exits (roomHeap ws other)) = (DirectionSouth \<notin> Exits ?cur)
                    \<and> (\<forall>a. a \<noteq> room exampleSession \<and> a \<noteq> other \<longrightarrow> roomHeap ws a = roomHeap twoRooms a)
                    \<and> roomDb ws = roomDb twoRooms
                          @ [(withExit DirectionSouth (DirectionSouth \<notin> Exits ?cur) ?cur)\<lparr>mutex := WriteLocked\<rparr>]
                          @ (if (DirectionSouth \<notin> Exits ?cur) \<noteq> (Opposite DirectionSouth \<in> Exits (roomHeap twoRooms other))
                             then [(withExit (Opposite DirectionSouth) (DirectionSouth \<notin> Exits ?cur)
                                      (roomHeap twoRooms other))\<lparr>mutex := WriteLocked\<rparr>]
                             else [])"
    by blast
  from restS [unfolded nextS]
  have frameS: "\<forall>a. a \<noteq> room exampleSession \<longrightarrow> roomHeap ws a = roomHeap twoRooms a"
    and dbS: "roomDb ws = roomDb twoRooms
                @ [(withExit DirectionSouth (DirectionSouth \<notin> Exits ?cur) ?cur)\<lparr>mutex := WriteLocked\<rparr>]"
    by simp_all
  have s3: "Exits (roomHeap ws 3) = {DirectionSouth}"
    using curS [unfolded here] by (simp add: cur3 withExit_def)
  have s4: "roomHeap ws 4 = roomHeap twoRooms 4"
    using frameS [unfolded here, THEN spec, of 4] by simp
  have s7: "roomHeap ws 7 = roomHeap twoRooms 7"
    using frameS [unfolded here, THEN spec, of 7] by simp
  have sIds: "map Id (roomDb ws) = [''r1'']"
    by (simp add: dbS db cur withExit_def)
  have south: "\<exists>world'. toggleExit stepTowards ''s'' exampleSession twoRooms = Inr world'
      \<and> Exits (roomHeap world' 3) = {DirectionSouth}
      \<and> roomHeap world' 4 = roomHeap twoRooms 4
      \<and> roomHeap world' 7 = roomHeap twoRooms 7
      \<and> map Id (roomDb world') = [''r1'']"
    by (rule exI [of _ ws]) (simp add: ws s3 s4 s7 sIds)
  from north south show ?thesis by (rule conjI)
qed

end
